theory Spec2Isabelle
  imports Main
begin

section \<open>Go library functions used by the sources\<close>

text \<open>
  Go strings are byte sequences; they are modelled as \<open>string\<close> (a list of
  8-bit characters). A nil slice and an empty slice are both the empty list.
\<close>

text \<open>\<open>strings.HasPrefix(s, prefix)\<close>: \<open>len(s) >= len(prefix) && s[:len(prefix)] == prefix\<close>.\<close>

definition HasPrefix :: "string \<Rightarrow> string \<Rightarrow> bool" where
  "HasPrefix s pre = (length pre \<le> length s \<and> take (length pre) s = pre)"

text \<open>
  \<open>strings.SplitN(s, sep, 2)\<close> for a one-byte separator: the part before the first
  separator and the unsplit remainder after it, or \<open>[s]\<close> when \<open>s\<close> holds no separator.
\<close>

definition SplitN2 :: "string \<Rightarrow> char \<Rightarrow> string list" where
  "SplitN2 s sep =
     (if sep \<in> set s
      then [takeWhile (\<lambda>c. c \<noteq> sep) s, tl (dropWhile (\<lambda>c. c \<noteq> sep) s)]
      else [s])"

text \<open>\<open>strings.Split(s, sep)\<close> for a one-byte separator: always at least one part.\<close>

fun Split :: "string \<Rightarrow> char \<Rightarrow> string list" where
  "Split [] sep = [[]]"
| "Split (c # cs) sep =
     (if c = sep then [] # Split cs sep
      else (case Split cs sep of
              [] \<Rightarrow> [[c]]
            | p # ps \<Rightarrow> (c # p) # ps))"

text \<open>\<open>strings.Join(elems, sep)\<close>.\<close>

fun Join :: "string list \<Rightarrow> string \<Rightarrow> string" where
  "Join [] sep = []"
| "Join [x] sep = x"
| "Join (x # y # ys) sep = x @ sep @ Join (y # ys) sep"

text \<open>The verb \<open>%d\<close> of \<open>fmt.Sprintf\<close>: decimal digits, with a minus sign below zero.\<close>

definition digit_char :: "nat \<Rightarrow> char" where
  "digit_char d = char_of (48 + d)"

fun nat_decimal :: "nat \<Rightarrow> string" where
  "nat_decimal n =
     (if n < 10 then [digit_char n] else nat_decimal (n div 10) @ [digit_char (n mod 10)])"

definition Sprintf_d :: "int \<Rightarrow> string" where
  "Sprintf_d i = (if i < 0 then CHR ''-'' # nat_decimal (nat (- i)) else nat_decimal (nat i))"

text \<open>
  \<open>strings.TrimSpace\<close> cuts Unicode white space, decoded from UTF-8, off both ends of
  a string. It is a parameter of the model: every result below holds for any function in
  its place.
\<close>

record go_strings =
  TrimSpace :: "string \<Rightarrow> string"


section \<open>The terminal multiplexer driver (package tmux)\<close>

text \<open>
  Package tmux is not among the sources. A \<open>Tmux\<close> value gives, for each method the
  sources call, what the call returns: an error is \<open>None\<close> for nil, and \<open>HasSession\<close>
  returns a pair (bool, error). The arguments that are the same at every call site
  (theme, shells, timeout) are left out.
\<close>

record Tmux =
  HasSession :: "string \<Rightarrow> bool \<times> string option"
  IsClaudeRunning :: "string \<Rightarrow> bool"
  KillSession :: "string \<Rightarrow> string option"
  KillSessionWithProcesses :: "string \<Rightarrow> string option"
  NewSessionWithCommand :: "string \<Rightarrow> string \<Rightarrow> string \<Rightarrow> string option"
  SetEnvironment :: "string \<Rightarrow> string \<Rightarrow> string \<Rightarrow> string option"
  ConfigureGasTownSession :: "string \<Rightarrow> string option"
  WaitForCommand :: "string \<Rightarrow> string option"
  AcceptBypassPermissionsWarning :: "string \<Rightarrow> string option"
  NudgeSession :: "string \<Rightarrow> string \<Rightarrow> string option"
  SendNotificationBanner :: "string \<Rightarrow> string \<Rightarrow> string \<Rightarrow> string option"


section \<open>Mail router (internal/mail/router.go)\<close>

text \<open>
  The \<open>Message\<close> struct is declared outside router.go; its fields are the ones
  \<open>Send\<close> reads. The type of \<open>Priority\<close> is left open (\<open>'p\<close>), and the field
  \<open>Type\<close>, of a string type (\<open>Send\<close> compares it with \<open>""\<close> and converts it with
  \<open>string(...)\<close>), is named \<open>MsgType\<close> here, apart from the \<open>Type\<close> of an event.
\<close>

record 'p Message =
  From :: string
  To :: string
  Subject :: string
  Body :: string
  Priority :: 'p
  ThreadID :: string
  ReplyTo :: string
  MsgType :: string

text \<open>
  Declarations of package mail that router.go uses and does not define:
  \<open>addressToIdentity\<close>, \<open>PriorityToBeads\<close> and the constant \<open>TypeNotification\<close>.
  They are parameters of the model.
\<close>

record 'p mail_decls =
  addressToIdentity :: "string \<Rightarrow> string"
  PriorityToBeads :: "'p \<Rightarrow> int"
  TypeNotification :: string

text \<open>
  What \<open>cmd.Run()\<close> gives back for the \<open>bd create\<close> command: the error of \<open>Run\<close>
  (\<open>None\<close> is nil) and what the command wrote to standard error.
\<close>

record run_outcome =
  run_err :: "string option"
  stderr :: string

text \<open>
  The collaborator of the router besides tmux: running \<open>bd\<close> with its arguments, the
  added environment entry and the working directory.
\<close>

record mail_world = go_strings +
  exec_bd :: "string list \<Rightarrow> string \<Rightarrow> string \<Rightarrow> run_outcome"

record Router =
  workDir :: string
  tmux :: Tmux

text \<open>\<open>addressToSessionID\<close>: the empty string when the address is not recognised.\<close>

definition addressToSessionID :: "string \<Rightarrow> string" where
  "addressToSessionID address =
     (if HasPrefix address ''mayor'' then ''gt-mayor''
      else (let parts = SplitN2 address CHR ''/'' in
            if length parts \<noteq> 2 \<or> parts ! 1 = [] then []
            else (let rig = parts ! 0; target = parts ! 1 in
                  ''gt-'' @ rig @ ''-'' @ target)))"

text \<open>\<open>notifyRecipient\<close>: the error it returns (\<open>None\<close> is nil).\<close>

definition notifyRecipient :: "Router \<Rightarrow> 'p Message \<Rightarrow> string option" where
  "notifyRecipient r msg =
     (let sessionID = addressToSessionID (To msg) in
      if sessionID = [] then None
      else (case HasSession (tmux r) sessionID of
              (hasSession, err) \<Rightarrow>
                if err \<noteq> None \<or> \<not> hasSession then None
                else SendNotificationBanner (tmux r) sessionID (From msg) (Subject msg)))"

text \<open>The argument list of \<open>bd create\<close> as \<open>Send\<close> builds it.\<close>

definition Send_labels :: "'p mail_decls \<Rightarrow> string \<Rightarrow> 'p Message \<Rightarrow> string list" where
  "Send_labels K fromIdentity msg =
     [''from:'' @ fromIdentity]
     @ (if ThreadID msg \<noteq> [] then [''thread:'' @ ThreadID msg] else [])
     @ (if ReplyTo msg \<noteq> [] then [''reply-to:'' @ ReplyTo msg] else [])
     @ (if MsgType msg \<noteq> [] \<and> MsgType msg \<noteq> TypeNotification K
        then [''msg-type:'' @ MsgType msg] else [])"

definition Send_args :: "'p mail_decls \<Rightarrow> string \<Rightarrow> 'p Message \<Rightarrow> string list" where
  "Send_args K fromIdentity msg =
     [''create'', ''--type'', ''message'', ''--title'', Subject msg, ''--assignee'', To msg]
     @ (if Body msg \<noteq> [] then [''--description'', Body msg] else [])
     @ [''--priority'', Sprintf_d (PriorityToBeads K (Priority msg))]
     @ (let labels = Send_labels K fromIdentity msg in
        if 0 < length labels then [''--labels'', Join labels '',''] else [])"

text \<open>The outcome of the \<open>bd create\<close> command that \<open>Send\<close> runs for a message.\<close>

definition Send_run :: "'p mail_decls \<Rightarrow> mail_world \<Rightarrow> Router \<Rightarrow> 'p Message \<Rightarrow> run_outcome" where
  "Send_run K W r msg =
     (let fromIdentity = addressToIdentity K (From msg) in
      exec_bd W (Send_args K fromIdentity msg) (''BEADS_AGENT_NAME='' @ fromIdentity) (workDir r))"

text \<open>\<open>Send\<close>: the error it returns (\<open>None\<close> is nil).\<close>

definition Send :: "'p mail_decls \<Rightarrow> mail_world \<Rightarrow> Router \<Rightarrow> 'p Message \<Rightarrow> string option" where
  "Send K W r msg =
     (let out = Send_run K W r msg in
      case run_err out of
        Some err \<Rightarrow>
          (let errMsg = TrimSpace W (stderr out) in
           if errMsg \<noteq> [] then Some errMsg
           else Some (''sending message: '' @ err))
      | None \<Rightarrow>
          (let ignored = notifyRecipient r msg in None))"


section \<open>Event records and their classification (package narrator)\<close>

text \<open>
  \<open>type Significance int\<close> with the constants numbered by \<open>iota\<close>. The values are only
  compared, so the 64-bit width of a Go \<open>int\<close> plays no part.
\<close>

type_synonym Significance = int

definition SignificanceNone :: Significance where "SignificanceNone = 0"
definition SignificanceLow :: Significance where "SignificanceLow = 1"
definition SignificanceMedium :: Significance where "SignificanceMedium = 2"
definition SignificanceHigh :: Significance where "SignificanceHigh = 3"

text \<open>
  What \<open>json.Unmarshal\<close> stores in a \<open>map[string]interface{}\<close>. \<open>'f\<close> stands for
  \<open>float64\<close>, which is not interpreted.
\<close>

datatype 'f json =
    JNull
  | JBool bool
  | JNumber 'f
  | JString string
  | JArray "'f json list"
  | JObject "(string \<times> 'f json) list"

text \<open>
  Modelled from the spec: the struct \<open>events.Event\<close> is declared in package events, which
  is not among the sources. The spec gives an event record the fields type, actor,
  payload (a string-keyed map), visibility and timestamp (an RFC3339 string); the code
  reads \<open>Type\<close>, \<open>Actor\<close>, \<open>Payload\<close>, \<open>Visibility\<close> and \<open>Timestamp\<close>, the first two and
  the last two as strings. \<open>Payload\<close> is \<open>None\<close> for a nil map.
\<close>

record 'f Event =
  Timestamp :: string
  Type :: string
  Actor :: string
  Payload :: "(string \<rightharpoonup> 'f json) option"
  Visibility :: string

text \<open>\<open>NarratorEvent\<close> embeds \<open>events.Event\<close> and adds the narrative metadata.\<close>

record 'f NarratorEvent = "'f Event" +
  Significance :: Significance
  Rig :: string
  Role :: string
  Summary :: string

text \<open>
  The constants of package events that the code names. Their values are not among the
  sources; they are parameters of the model.
\<close>

record events_consts =
  EventsFile :: string
  VisibilityAudit :: string
  TypeSling :: string
  TypeDone :: string
  TypeHandoff :: string
  TypeMerged :: string
  TypeMergeFailed :: string
  TypeSpawn :: string
  TypeKill :: string
  TypeBoot :: string
  TypeHalt :: string
  TypeMassDeath :: string
  TypeHook :: string
  TypeUnhook :: string
  TypeMail :: string
  TypeNudge :: string
  TypeSessionDeath :: string
  TypeEscalationSent :: string
  TypeEscalationAcked :: string
  TypeEscalationClosed :: string
  TypeMergeStarted :: string
  TypeMergeSkipped :: string
  TypeSessionStart :: string
  TypeSessionEnd :: string
  TypePatrolStarted :: string
  TypePatrolComplete :: string
  TypePolecatChecked :: string
  TypePolecatNudged :: string

text \<open>
  The cases of the \<open>switch e.Type\<close> in \<open>classifySignificance\<close>, in the order of the
  source, each with the significance its branch returns.
\<close>

definition classify_cases :: "events_consts \<Rightarrow> (string \<times> Significance) list" where
  "classify_cases K =
     [(TypeSling K, SignificanceHigh),
      (TypeDone K, SignificanceHigh),
      (TypeHandoff K, SignificanceHigh),
      (TypeMerged K, SignificanceHigh),
      (TypeMergeFailed K, SignificanceHigh),
      (TypeSpawn K, SignificanceHigh),
      (TypeKill K, SignificanceHigh),
      (TypeBoot K, SignificanceHigh),
      (TypeHalt K, SignificanceHigh),
      (TypeMassDeath K, SignificanceHigh),
      (TypeHook K, SignificanceMedium),
      (TypeUnhook K, SignificanceMedium),
      (TypeMail K, SignificanceMedium),
      (TypeNudge K, SignificanceMedium),
      (TypeSessionDeath K, SignificanceMedium),
      (TypeEscalationSent K, SignificanceMedium),
      (TypeEscalationAcked K, SignificanceMedium),
      (TypeEscalationClosed K, SignificanceMedium),
      (TypeMergeStarted K, SignificanceMedium),
      (TypeMergeSkipped K, SignificanceMedium),
      (TypeSessionStart K, SignificanceLow),
      (TypeSessionEnd K, SignificanceLow),
      (TypePatrolStarted K, SignificanceLow),
      (TypePatrolComplete K, SignificanceLow),
      (TypePolecatChecked K, SignificanceLow),
      (TypePolecatNudged K, SignificanceLow)]"

text \<open>
  A \<open>switch\<close> runs the first case that equals the tag, top to bottom, and the
  \<open>default\<close> branch when none does.
\<close>

fun switch_on :: "string \<Rightarrow> (string \<times> 'a) list \<Rightarrow> 'a \<Rightarrow> 'a" where
  "switch_on tag [] dflt = dflt"
| "switch_on tag ((c, v) # cases) dflt = (if tag = c then v else switch_on tag cases dflt)"

definition classifySignificance :: "events_consts \<Rightarrow> ('f, 'x) Event_scheme \<Rightarrow> Significance" where
  "classifySignificance K e =
     (if Visibility e = VisibilityAudit K then SignificanceNone
      else switch_on (Type e) (classify_cases K) SignificanceLow)"

text \<open>\<open>extractRig\<close>: the payload's non-empty string \<open>rig\<close>, else the first part of the actor.\<close>

definition extractRig :: "('f, 'x) Event_scheme \<Rightarrow> string" where
  "extractRig e =
     (case (case Payload e of
              None \<Rightarrow> None
            | Some payload \<Rightarrow>
                (case payload ''rig'' of
                   Some (JString rig) \<Rightarrow> if rig \<noteq> [] then Some rig else None
                 | _ \<Rightarrow> None)) of
        Some rig \<Rightarrow> rig
      | None \<Rightarrow>
          (if Actor e \<noteq> [] then
             (let parts = Split (Actor e) CHR ''/'' in
              if 0 < length parts then
                (let first = parts ! 0 in
                 if first \<noteq> ''mayor'' \<and> first \<noteq> ''deacon'' \<and> first \<noteq> ''gt'' then first
                 else [])
              else [])
           else []))"

text \<open>\<open>extractRole\<close>.\<close>

definition extractRole :: "('f, 'x) Event_scheme \<Rightarrow> string" where
  "extractRole e =
     (if Actor e = [] then []
      else (let parts = Split (Actor e) CHR ''/'' in
            if length parts = 1 \<and> parts ! 0 \<in> set [''mayor'', ''deacon'', ''gt''] then parts ! 0
            else if 2 \<le> length parts then
              (let second = parts ! 1 in
               if second \<in> set [''witness'', ''refinery'', ''narrator''] then second
               else if second = ''polecats'' then ''polecat''
               else if second = ''crew'' then ''crew''
               else ''polecat'')
            else []))"

definition getPayloadString :: "(string \<rightharpoonup> 'f json) option \<Rightarrow> string \<Rightarrow> string" where
  "getPayloadString payload key =
     (case payload of
        None \<Rightarrow> []
      | Some m \<Rightarrow> (case m key of Some (JString v) \<Rightarrow> v | _ \<Rightarrow> []))"

text \<open>
  \<open>getPayloadInt\<close>: \<open>int(v)\<close> for a \<open>float64\<close> value \<open>v\<close>; the conversion is the
  parameter \<open>to_int\<close>.
\<close>

definition getPayloadInt :: "('f \<Rightarrow> int) \<Rightarrow> (string \<rightharpoonup> 'f json) option \<Rightarrow> string \<Rightarrow> int" where
  "getPayloadInt to_int payload key =
     (case payload of
        None \<Rightarrow> 0
      | Some m \<Rightarrow> (case m key of Some (JNumber v) \<Rightarrow> to_int v | _ \<Rightarrow> 0))"

text \<open>
  \<open>buildSummary\<close>: the \<open>switch e.Type\<close> as a chain of tests in the order of the source;
  \<open>fmt.Sprintf\<close> with \<open>%s\<close> is concatenation.
\<close>

definition buildSummary :: "events_consts \<Rightarrow> ('f \<Rightarrow> int) \<Rightarrow> ('f, 'x) Event_scheme \<Rightarrow> string" where
  "buildSummary K to_int e =
     (let str = getPayloadString (Payload e); num = getPayloadInt to_int (Payload e) in
      if Type e = TypeSling K then
        (let bead = str ''bead''; target = str ''target'' in
         if bead \<noteq> [] \<and> target \<noteq> [] then ''Work '' @ bead @ '' slung to '' @ target
         else ''Work assignment dispatched'')
      else if Type e = TypeHook K then
        (let bead = str ''bead'' in
         if bead \<noteq> [] then ''Hooked work '' @ bead else ''Work hooked'')
      else if Type e = TypeUnhook K then
        (let bead = str ''bead'' in
         if bead \<noteq> [] then ''Unhooked work '' @ bead else ''Work unhooked'')
      else if Type e = TypeDone K then
        (let bead = str ''bead'' in
         if bead \<noteq> [] then ''Completed work '' @ bead else ''Work completed'')
      else if Type e = TypeHandoff K then
        (let subject = str ''subject'' in
         if subject \<noteq> [] then ''Handoff: '' @ subject else ''Session handoff'')
      else if Type e = TypeMail K then
        (let to = str ''to''; subject = str ''subject'' in
         if to \<noteq> [] \<and> subject \<noteq> [] then ''Mail to '' @ to @ '': '' @ subject
         else ''Mail sent'')
      else if Type e = TypeSpawn K then
        (let polecat = str ''polecat''; rig = str ''rig'' in
         if polecat \<noteq> [] \<and> rig \<noteq> [] then ''Spawned polecat '' @ polecat @ '' in '' @ rig
         else ''Polecat spawned'')
      else if Type e = TypeKill K then
        (let target = str ''target''; reason = str ''reason'' in
         if target \<noteq> [] then
           (if reason \<noteq> [] then ''Killed '' @ target @ '': '' @ reason
            else ''Killed '' @ target)
         else ''Process killed'')
      else if Type e = TypeBoot K then
        (let rig = str ''rig'' in
         if rig \<noteq> [] then ''Booted rig '' @ rig else ''Rig booted'')
      else if Type e = TypeHalt K then ''Services halted''
      else if Type e = TypeNudge K then
        (let target = str ''target''; reason = str ''reason'' in
         if target \<noteq> [] then
           (if reason \<noteq> [] then ''Nudged '' @ target @ '': '' @ reason
            else ''Nudged '' @ target)
         else ''Agent nudged'')
      else if Type e = TypeMergeStarted K then
        (let worker = str ''worker'' in
         if worker \<noteq> [] then ''Merge started for '' @ worker else ''Merge started'')
      else if Type e = TypeMerged K then
        (let worker = str ''worker'' in
         if worker \<noteq> [] then ''Merged work from '' @ worker else ''Work merged'')
      else if Type e = TypeMergeFailed K then
        (let worker = str ''worker''; reason = str ''reason'' in
         if worker \<noteq> [] then
           (if reason \<noteq> [] then ''Merge failed for '' @ worker @ '': '' @ reason
            else ''Merge failed for '' @ worker)
         else ''Merge failed'')
      else if Type e = TypeMergeSkipped K then
        (let reason = str ''reason'' in
         if reason \<noteq> [] then ''Merge skipped: '' @ reason else ''Merge skipped'')
      else if Type e = TypeSessionStart K then
        (let role = str ''role''; topic = str ''topic'' in
         if role \<noteq> [] then
           (if topic \<noteq> [] then role @ '' session started: '' @ topic
            else role @ '' session started'')
         else ''Session started'')
      else if Type e = TypeSessionEnd K then
        (let role = str ''role'' in
         if role \<noteq> [] then role @ '' session ended'' else ''Session ended'')
      else if Type e = TypeSessionDeath K then
        (let agent = str ''agent''; reason = str ''reason'' in
         if agent \<noteq> [] then
           (if reason \<noteq> [] then ''Session died: '' @ agent @ '' ('' @ reason @ '')''
            else ''Session died: '' @ agent)
         else ''Session died'')
      else if Type e = TypeMassDeath K then
        (let count = num ''count''; cause = str ''possible_cause'' in
         if 0 < count then
           (if cause \<noteq> [] then
              ''Mass death: '' @ Sprintf_d count @ '' sessions ('' @ cause @ '')''
            else ''Mass death: '' @ Sprintf_d count @ '' sessions'')
         else ''Mass death event'')
      else if Type e = TypePatrolStarted K then
        (let count = num ''polecat_count'' in
         if 0 < count then ''Patrol started ('' @ Sprintf_d count @ '' polecats)''
         else ''Patrol started'')
      else if Type e = TypePatrolComplete K then
        (let count = num ''polecat_count'' in
         if 0 < count then ''Patrol complete ('' @ Sprintf_d count @ '' polecats)''
         else ''Patrol complete'')
      else if Type e = TypePolecatChecked K then
        (let polecat = str ''polecat''; status = str ''status'' in
         if polecat \<noteq> [] \<and> status \<noteq> [] then ''Checked '' @ polecat @ '': '' @ status
         else ''Polecat checked'')
      else if Type e = TypePolecatNudged K then
        (let polecat = str ''polecat'' in
         if polecat \<noteq> [] then ''Nudged '' @ polecat else ''Polecat nudged'')
      else if Type e = TypeEscalationSent K then
        (let target = str ''target''; to = str ''to'' in
         if target \<noteq> [] \<and> to \<noteq> [] then ''Escalated '' @ target @ '' to '' @ to
         else ''Escalation sent'')
      else if Type e = TypeEscalationAcked K then ''Escalation acknowledged''
      else if Type e = TypeEscalationClosed K then ''Escalation closed''
      else Type e)"


section \<open>The event reader (package narrator)\<close>

text \<open>
  \<open>EventReader\<close> and \<open>Manager\<close> both start with the field \<open>townRoot\<close>; the records
  share it.
\<close>

record town =
  townRoot :: string

record EventReader = town +
  eventsPath :: string
  offset :: int

text \<open>The errors that the reader wraps, each with the error it wraps.\<close>

datatype scan_error = ErrTooLong

datatype reader_error =
    ParsingEvent string
  | OpeningEventsFile string
  | SeekingToOffset int string
  | ReadingEvents scan_error

text \<open>
  What \<open>os.Open\<close> gives for the events file: the error \<open>os.ErrNotExist\<close>, another
  error, or the open file with the bytes it holds.
\<close>

datatype open_result = ErrNotExist | OpenError string | Opened string

text \<open>
  The collaborators of the reader: the file system (\<open>os.Open\<close> by path, the error of
  \<open>file.Seek(startOffset, io.SeekStart)\<close> and of \<open>file.Seek(0, io.SeekCurrent)\<close>,
  \<open>None\<close> for nil), \<open>json.Unmarshal\<close> into an \<open>events.Event\<close> (\<open>Inl\<close> its error),
  the conversion \<open>int(v)\<close> of a \<open>float64\<close>, and the constants of package events.
\<close>

record 'f reader_world = go_strings +
  os_Open :: "string \<Rightarrow> open_result"
  seek_start_err :: "int \<Rightarrow> string option"
  seek_current_err :: "string option"
  Unmarshal :: "string \<Rightarrow> string + 'f Event"
  float64_to_int :: "'f \<Rightarrow> int"
  events :: events_consts

text \<open>\<open>parseLine\<close>.\<close>

definition parseLine :: "'f reader_world \<Rightarrow> string \<Rightarrow> reader_error + 'f NarratorEvent" where
  "parseLine W line =
     (case Unmarshal W line of
        Inl err \<Rightarrow> Inl (ParsingEvent err)
      | Inr raw \<Rightarrow>
          Inr \<lparr>Timestamp = Timestamp raw, Type = Type raw, Actor = Actor raw,
               Payload = Payload raw, Visibility = Visibility raw,
               Significance = classifySignificance (events W) raw,
               Rig = extractRig raw,
               Role = extractRole raw,
               Summary = buildSummary (events W) (float64_to_int W) raw\<rparr>)"

text \<open>
  \<open>bufio.Scanner\<close> with its default split function \<open>ScanLines\<close> and its default buffer
  limit \<open>MaxScanTokenSize\<close>: each token is a line without its line feed and without one
  trailing carriage return; a last line without a line feed is a token too when it is not
  empty. The scanner stops with \<open>ErrTooLong\<close> at a line of \<open>MaxScanTokenSize\<close> bytes or
  more, having delivered the lines before it. \<open>ScanLines data\<close> is the tokens that
  \<open>Scan\<close> delivers on the bytes \<open>data\<close>, and the value of \<open>Err()\<close> afterwards.
  Read errors of the operating system are not modelled.
\<close>

definition MaxScanTokenSize :: nat where
  "MaxScanTokenSize = 64 * 1024"

definition dropCR :: "string \<Rightarrow> string" where
  "dropCR data = (if data \<noteq> [] \<and> last data = CHR 0x0D then butlast data else data)"

function ScanLines :: "string \<Rightarrow> string list \<times> scan_error option" where
  "ScanLines data =
     (if data = [] then ([], None)
      else (let line = takeWhile (\<lambda>c. c \<noteq> CHR 0x0A) data in
            if MaxScanTokenSize \<le> length line then ([], Some ErrTooLong)
            else (case ScanLines (drop (length line + 1) data) of
                    (tokens, err) \<Rightarrow> (dropCR line # tokens, err))))"
  by pat_completeness auto
termination
  by (relation "measure length") auto

declare ScanLines.simps [simp del]

text \<open>The body of the loop \<open>for scanner.Scan()\<close> of \<open>readFromOffset\<close>, over the tokens.\<close>

fun scan_loop ::
  "'f reader_world \<Rightarrow> string list \<Rightarrow> 'f NarratorEvent list \<Rightarrow> 'f NarratorEvent list" where
  "scan_loop W [] result = result"
| "scan_loop W (line # rest) result =
     (if TrimSpace W line = [] then scan_loop W rest result
      else (case parseLine W line of
              Inl err \<Rightarrow> scan_loop W rest result
            | Inr event \<Rightarrow> scan_loop W rest (result @ [event])))"

text \<open>
  \<open>readFromOffset\<close> returns the events and the error (\<open>None\<close> for nil), and the reader as
  the call leaves it. The file is read from the position \<open>startOffset\<close> when that is
  positive and from its start otherwise; a position past the end of the file reads
  nothing. After the scanner has read to the end of the file, \<open>file.Seek(0,
  io.SeekCurrent)\<close> is the position the reading started at plus the number of bytes read.
\<close>

definition readFromOffset ::
  "'f reader_world \<Rightarrow> int \<Rightarrow> EventReader \<Rightarrow>
     ('f NarratorEvent list \<times> reader_error option) \<times> EventReader" where
  "readFromOffset W startOffset r =
     (case os_Open W (eventsPath r) of
        ErrNotExist \<Rightarrow> (([], None), r)
      | OpenError err \<Rightarrow> (([], Some (OpeningEventsFile err)), r)
      | Opened content \<Rightarrow>
          (case (if 0 < startOffset then seek_start_err W startOffset else None) of
             Some err \<Rightarrow> (([], Some (SeekingToOffset startOffset err)), r)
           | None \<Rightarrow>
               (let pos = (if 0 < startOffset then nat startOffset else 0);
                    unread = drop pos content
                in case ScanLines unread of
                     (tokens, scan_err) \<Rightarrow>
                       (let result = scan_loop W tokens [] in
                        case scan_err of
                          Some err \<Rightarrow> ((result, Some (ReadingEvents err)), r)
                        | None \<Rightarrow>
                            (let newOffset = int pos + int (length unread) in
                             case seek_current_err W of
                               None \<Rightarrow> ((result, None), r\<lparr>offset := newOffset\<rparr>)
                             | Some err \<Rightarrow> ((result, None), r))))))"

definition ReadNew ::
  "'f reader_world \<Rightarrow> EventReader \<Rightarrow>
     ('f NarratorEvent list \<times> reader_error option) \<times> EventReader" where
  "ReadNew W r = readFromOffset W (offset r) r"

definition ReadAll ::
  "'f reader_world \<Rightarrow> EventReader \<Rightarrow>
     ('f NarratorEvent list \<times> reader_error option) \<times> EventReader" where
  "ReadAll W r = readFromOffset W 0 r"


section \<open>Filters over classified events (package narrator)\<close>

text \<open>
  The variables of a filter while it runs: the slice \<open>evts\<close> it was given and the slice
  \<open>result\<close> it builds. The body of the \<open>range\<close> loop runs once for each element of
  \<open>evts\<close>, in order.
\<close>

record 'f filter_vars =
  evts :: "'f NarratorEvent list"
  result :: "'f NarratorEvent list"

definition FilterByRig_body ::
  "string \<Rightarrow> 'f NarratorEvent \<Rightarrow> 'f filter_vars \<Rightarrow> 'f filter_vars" where
  "FilterByRig_body rig e s = (if Rig e = rig then s\<lparr>result := result s @ [e]\<rparr> else s)"

definition FilterByRig_run :: "string \<Rightarrow> 'f filter_vars \<Rightarrow> 'f filter_vars" where
  "FilterByRig_run rig s = fold (FilterByRig_body rig) (evts s) s"

definition FilterByRig :: "'f NarratorEvent list \<Rightarrow> string \<Rightarrow> 'f NarratorEvent list" where
  "FilterByRig es rig = result (FilterByRig_run rig \<lparr>evts = es, result = []\<rparr>)"

definition FilterBySignificance_body ::
  "Significance \<Rightarrow> 'f NarratorEvent \<Rightarrow> 'f filter_vars \<Rightarrow> 'f filter_vars" where
  "FilterBySignificance_body minSig e s =
     (if minSig \<le> Significance e then s\<lparr>result := result s @ [e]\<rparr> else s)"

definition FilterBySignificance_run :: "Significance \<Rightarrow> 'f filter_vars \<Rightarrow> 'f filter_vars" where
  "FilterBySignificance_run minSig s = fold (FilterBySignificance_body minSig) (evts s) s"

definition FilterBySignificance ::
  "'f NarratorEvent list \<Rightarrow> Significance \<Rightarrow> 'f NarratorEvent list" where
  "FilterBySignificance es minSig =
     result (FilterBySignificance_run minSig \<lparr>evts = es, result = []\<rparr>)"


section \<open>The narrator's session manager (package narrator)\<close>

text \<open>
  \<open>agent.State\<close> with the three constants that types.go re-exports, and the structs of
  types.go. A \<open>*time.Time\<close> is an optional instant; instants are integers.
\<close>

datatype State = StateStopped | StateRunning | StatePaused

type_synonym Time = int

record NarratorConfig =
  Style :: string
  OutputDir :: string
  EventTypes :: "string list"
  RigFilter :: "string list"

record Narrator =
  State :: State
  StartedAt :: "Time option"
  Config :: NarratorConfig
  LastEventAt :: "Time option"
  NarrativesGenerated :: int

definition StyleBook :: string where
  "StyleBook = ''book''"

definition DefaultConfig :: NarratorConfig where
  "DefaultConfig = \<lparr>Style = StyleBook, OutputDir = [], EventTypes = [], RigFilter = []\<rparr>"

text \<open>The default that \<open>NewManager\<close> hands to the state manager.\<close>

definition default_Narrator :: Narrator where
  "default_Narrator =
     \<lparr>State = StateStopped, StartedAt = None, Config = DefaultConfig,
      LastEventAt = None, NarrativesGenerated = 0\<rparr>"

text \<open>
  \<open>Manager\<close>: the field \<open>stateManager\<close> holds the name of the state file that
  \<open>NewManager\<close> gives to \<open>agent.NewStateManager\<close>.
\<close>

record Manager = town +
  stateManager :: string

definition NewManager :: "string \<Rightarrow> Manager" where
  "NewManager root = \<lparr>townRoot = root, stateManager = ''narrator.json''\<rparr>"

text \<open>The errors of \<open>Start\<close>, each with the error it wraps, and what a call of it ends in.\<close>

datatype start_error =
    ErrAlreadyRunning
  | KillingZombieSession string
  | CreatingNarratorDirectory string
  | EnsuringClaudeSettings string
  | BuildingStartupCommand string
  | CreatingTmuxSession string
  | SavingState string
  | WaitingForNarratorToStart string

datatype start_result = Returned_nil | Returned start_error | Panicked

text \<open>
  The calls that \<open>Start\<close> makes to its collaborators (tmux, \<open>os\<close>, package claude,
  package session, \<open>time.Sleep\<close>), with their arguments, in the order it makes them.
\<close>

datatype duration = ShutdownNotifyDelay | Seconds nat

datatype call =
    Call_HasSession string
  | Call_IsClaudeRunning string
  | Call_KillSession string
  | Call_MkdirAll string
  | Call_EnsureSettingsForRole string string
  | Call_NewSessionWithCommand string string string
  | Call_SetEnvironment string string string
  | Call_ConfigureGasTownSession string
  | Call_WaitForCommand string
  | Call_KillSessionWithProcesses string
  | Call_AcceptBypassPermissionsWarning string
  | Call_Sleep duration
  | Call_StartupNudge string
  | Call_NudgeSession string string

text \<open>
  Modelled from the spec: \<open>agent.StateManager\<close> is not among the sources. The spec's state
  store returns a type-specific default when no record exists, and saves atomically: a
  save that fails leaves the record as it was. The state file holds no record, a record,
  or bytes that cannot be read; \<open>Load\<close> of the last returns an error and, as a Go
  function that fails does, a nil pointer.
\<close>

datatype state_file = NoRecord | Record Narrator | Unreadable string

text \<open>What \<open>Start\<close> changes: the state file, and the calls made so far.\<close>

record host =
  stored :: state_file
  calls :: "call list"

text \<open>
  The collaborators of \<open>Start\<close> besides the \<open>Tmux\<close> that \<open>tmux.NewTmux()\<close> returns:
  the constant \<open>session.HQPrefix\<close>, \<open>filepath.Join\<close> of two elements, \<open>os.MkdirAll\<close>,
  \<open>claude.EnsureSettingsForRole\<close>, \<open>config.BuildAgentStartupCommandWithAgentOverride\<close> by
  town root and agent override (\<open>Inl\<close> its error), \<open>config.AgentEnv\<close> by town root as
  the pairs in the order the \<open>range\<close> loop visits them, \<open>time.Now\<close>, the error of the
  state manager's \<open>Save\<close>, \<open>session.StartupNudge\<close> and
  \<open>session.PropulsionNudgeForRole\<close>.
\<close>

record start_world =
  NewTmux :: Tmux
  HQPrefix :: string
  filepath_Join :: "string \<Rightarrow> string \<Rightarrow> string"
  MkdirAll :: "string \<Rightarrow> string option"
  EnsureSettingsForRole :: "string \<Rightarrow> string \<Rightarrow> string option"
  BuildAgentStartupCommandWithAgentOverride :: "string \<Rightarrow> string \<Rightarrow> string + string"
  AgentEnv :: "string \<Rightarrow> (string \<times> string) list"
  Now :: Time
  Save_err :: "Narrator \<Rightarrow> string option"
  StartupNudge :: "string \<Rightarrow> string option"
  PropulsionNudgeForRole :: "string \<Rightarrow> string \<Rightarrow> string"

definition SessionName :: "start_world \<Rightarrow> string" where
  "SessionName W = HQPrefix W @ ''narrator''"

definition narratorDir :: "start_world \<Rightarrow> Manager \<Rightarrow> string" where
  "narratorDir W m = filepath_Join W (townRoot m) ''narrator''"

definition did :: "call \<Rightarrow> host \<Rightarrow> host" where
  "did c h = h\<lparr>calls := calls h @ [c]\<rparr>"

text \<open>\<open>loadState\<close>: the pointer (\<open>None\<close> for nil) and the error.\<close>

definition loadState :: "host \<Rightarrow> Narrator option \<times> string option" where
  "loadState h =
     (case stored h of
        NoRecord \<Rightarrow> (Some default_Narrator, None)
      | Record n \<Rightarrow> (Some n, None)
      | Unreadable err \<Rightarrow> (None, Some err))"

definition saveState :: "start_world \<Rightarrow> Narrator \<Rightarrow> host \<Rightarrow> string option \<times> host" where
  "saveState W n h =
     (case Save_err W n of
        None \<Rightarrow> (None, h\<lparr>stored := Record n\<rparr>)
      | Some err \<Rightarrow> (Some err, h))"

text \<open>
  \<open>Start\<close> from \<open>// Update state\<close> to its end. Assigning through the nil pointer of a
  failed load panics.
\<close>

definition Start_record :: "start_world \<Rightarrow> string \<Rightarrow> string \<Rightarrow> host \<Rightarrow> start_result \<times> host" where
  "Start_record W sessionID dir h =
     (let t = NewTmux W; now = Now W in
      case fst (loadState h) of
        None \<Rightarrow> (Panicked, h)
      | Some n0 \<Rightarrow>
          (let n = n0\<lparr>State := StateRunning, StartedAt := Some now\<rparr> in
           case saveState W n h of
             (Some err, h1) \<Rightarrow> (Returned (SavingState err), did (Call_KillSession sessionID) h1)
           | (None, h1) \<Rightarrow>
               (let h2 = did (Call_WaitForCommand sessionID) h1 in
                case WaitForCommand t sessionID of
                  Some err \<Rightarrow>
                    (Returned (WaitingForNarratorToStart err),
                     did (Call_KillSessionWithProcesses sessionID) h2)
                | None \<Rightarrow>
                    (Returned_nil,
                     fold did
                       [Call_AcceptBypassPermissionsWarning sessionID,
                        Call_Sleep ShutdownNotifyDelay,
                        Call_StartupNudge sessionID,
                        Call_Sleep (Seconds 2),
                        Call_NudgeSession sessionID (PropulsionNudgeForRole W ''narrator'' dir)]
                       h2))))"

text \<open>\<open>Start\<close> from \<open>// Ensure narrator directory exists\<close> to its end.\<close>

definition Start_create ::
  "start_world \<Rightarrow> Manager \<Rightarrow> string \<Rightarrow> string \<Rightarrow> host \<Rightarrow> start_result \<times> host" where
  "Start_create W m agentOverride sessionID h =
     (let t = NewTmux W;
          dir = narratorDir W m;
          h1 = did (Call_MkdirAll dir) h
      in case MkdirAll W dir of
           Some err \<Rightarrow> (Returned (CreatingNarratorDirectory err), h1)
         | None \<Rightarrow>
             (let h2 = did (Call_EnsureSettingsForRole dir ''narrator'') h1 in
              case EnsureSettingsForRole W dir ''narrator'' of
                Some err \<Rightarrow> (Returned (EnsuringClaudeSettings err), h2)
              | None \<Rightarrow>
                  (case BuildAgentStartupCommandWithAgentOverride W (townRoot m) agentOverride of
                     Inl err \<Rightarrow> (Returned (BuildingStartupCommand err), h2)
                   | Inr startupCmd \<Rightarrow>
                       (let h3 = did (Call_NewSessionWithCommand sessionID dir startupCmd) h2 in
                        case NewSessionWithCommand t sessionID dir startupCmd of
                          Some err \<Rightarrow> (Returned (CreatingTmuxSession err), h3)
                        | None \<Rightarrow>
                            (let h4 = fold (\<lambda>(k, v). did (Call_SetEnvironment sessionID k v))
                                        (AgentEnv W (townRoot m)) h3;
                                 h5 = did (Call_ConfigureGasTownSession sessionID) h4
                             in Start_record W sessionID dir h5)))))"

text \<open>\<open>Start\<close>: what the call ends in, and the host as the call leaves it.\<close>

definition Start :: "start_world \<Rightarrow> Manager \<Rightarrow> string \<Rightarrow> host \<Rightarrow> start_result \<times> host" where
  "Start W m agentOverride h =
     (let t = NewTmux W;
          sessionID = SessionName W;
          h1 = did (Call_HasSession sessionID) h
      in case HasSession t sessionID of
           (running, ignored) \<Rightarrow>
             if running then
               (let h2 = did (Call_IsClaudeRunning sessionID) h1 in
                if IsClaudeRunning t sessionID then (Returned ErrAlreadyRunning, h2)
                else (let h3 = did (Call_KillSession sessionID) h2 in
                      case KillSession t sessionID of
                        Some err \<Rightarrow> (Returned (KillingZombieSession err), h3)
                      | None \<Rightarrow> Start_create W m agentOverride sessionID h3))
             else Start_create W m agentOverride sessionID h1)"


section \<open>Concrete collaborators\<close>

text \<open>
  Values for the parameters of the model, to run it on concrete inputs. No general
  theorem below depends on them.
\<close>

definition example_consts :: events_consts where
  "example_consts =
     \<lparr>EventsFile = ''.events.jsonl'',
      VisibilityAudit = ''audit'',
      TypeSling = ''sling'',
      TypeDone = ''done'',
      TypeHandoff = ''handoff'',
      TypeMerged = ''merged'',
      TypeMergeFailed = ''merge_failed'',
      TypeSpawn = ''spawn'',
      TypeKill = ''kill'',
      TypeBoot = ''boot'',
      TypeHalt = ''halt'',
      TypeMassDeath = ''mass_death'',
      TypeHook = ''hook'',
      TypeUnhook = ''unhook'',
      TypeMail = ''mail'',
      TypeNudge = ''nudge'',
      TypeSessionDeath = ''session_death'',
      TypeEscalationSent = ''escalation_sent'',
      TypeEscalationAcked = ''escalation_acked'',
      TypeEscalationClosed = ''escalation_closed'',
      TypeMergeStarted = ''merge_started'',
      TypeMergeSkipped = ''merge_skipped'',
      TypeSessionStart = ''session_start'',
      TypeSessionEnd = ''session_end'',
      TypePatrolStarted = ''patrol_started'',
      TypePatrolComplete = ''patrol_complete'',
      TypePolecatChecked = ''polecat_checked'',
      TypePolecatNudged = ''polecat_nudged''\<rparr>"

text \<open>Cuts blanks off both ends.\<close>

definition example_TrimSpace :: "string \<Rightarrow> string" where
  "example_TrimSpace s =
     rev (dropWhile (\<lambda>c. c = CHR '' '') (rev (dropWhile (\<lambda>c. c = CHR '' '') s)))"

text \<open>
  A decoder in the place of \<open>json.Unmarshal\<close>: a line of three fields, separated by
  single blanks, is an event with that type, actor and visibility; any other line is
  malformed.
\<close>

definition example_Unmarshal :: "string \<Rightarrow> string + unit Event" where
  "example_Unmarshal line =
     (case Split line CHR '' '' of
        [ty, actor, vis] \<Rightarrow>
          Inr \<lparr>Timestamp = [], Type = ty, Actor = actor, Payload = None, Visibility = vis\<rparr>
      | _ \<Rightarrow> Inl ''invalid'')"

text \<open>A file system with one answer to \<open>os.Open\<close>, where seeking never fails.\<close>

definition example_reader_world :: "open_result \<Rightarrow> unit reader_world" where
  "example_reader_world file =
     \<lparr>TrimSpace = example_TrimSpace,
      os_Open = (\<lambda>path. file),
      seek_start_err = (\<lambda>pos. None),
      seek_current_err = None,
      Unmarshal = example_Unmarshal,
      float64_to_int = (\<lambda>v. 0),
      events = example_consts\<rparr>"

definition example_reader :: "int \<Rightarrow> EventReader" where
  "example_reader off =
     \<lparr>townRoot = ''/gt'', eventsPath = ''/gt/.events.jsonl'', offset = off\<rparr>"

text \<open>Three lines: an event, a malformed line, and an event without a line feed.\<close>

definition example_log :: string where
  "example_log =
     ''sling gastown/toast feed'' @ [CHR 0x0A] @
     ''{not-an-event'' @ [CHR 0x0A] @
     ''done gastown/toast audit''"



text \<open>
  A tmux driver: whether the session exists, whether its inner process is alive, what
  killing the session and waiting for the command return; pushing a banner fails, every
  other call succeeds.
\<close>

definition example_Tmux :: "bool \<Rightarrow> bool \<Rightarrow> string option \<Rightarrow> string option \<Rightarrow> Tmux" where
  "example_Tmux has alive kill wait =
     \<lparr>HasSession = (\<lambda>id. (has, None)),
      IsClaudeRunning = (\<lambda>id. alive),
      KillSession = (\<lambda>id. kill),
      KillSessionWithProcesses = (\<lambda>id. None),
      NewSessionWithCommand = (\<lambda>id dir cmd. None),
      SetEnvironment = (\<lambda>id k v. None),
      ConfigureGasTownSession = (\<lambda>id. None),
      WaitForCommand = (\<lambda>id. wait),
      AcceptBypassPermissionsWarning = (\<lambda>id. None),
      NudgeSession = (\<lambda>id text. None),
      SendNotificationBanner = (\<lambda>id sender subject. Some ''no server running'')\<rparr>"

definition example_start_world :: "Tmux \<Rightarrow> start_world" where
  "example_start_world t =
     \<lparr>NewTmux = t,
      HQPrefix = ''hq-'',
      filepath_Join = (\<lambda>a b. a @ ''/'' @ b),
      MkdirAll = (\<lambda>dir. None),
      EnsureSettingsForRole = (\<lambda>dir role. None),
      BuildAgentStartupCommandWithAgentOverride = (\<lambda>root agent. Inr ''claude''),
      AgentEnv = (\<lambda>root. [(''GT_ROLE'', ''narrator''), (''GT_ROOT'', root)]),
      Now = 1000,
      Save_err = (\<lambda>n. None),
      StartupNudge = (\<lambda>id. None),
      PropulsionNudgeForRole = (\<lambda>role dir. ''go'')\<rparr>"

definition example_host :: host where
  "example_host = \<lparr>stored = Record default_Narrator, calls = []\<rparr>"

text \<open>A \<open>bd\<close> that returns the given error and writes nothing to standard error.\<close>

definition example_mail_world :: "string option \<Rightarrow> mail_world" where
  "example_mail_world err =
     \<lparr>TrimSpace = example_TrimSpace,
      exec_bd = (\<lambda>args env dir. \<lparr>run_err = err, stderr = []\<rparr>)\<rparr>"

definition example_mail_decls :: "nat mail_decls" where
  "example_mail_decls =
     \<lparr>addressToIdentity = (\<lambda>a. a), PriorityToBeads = int, TypeNotification = ''notification''\<rparr>"

definition example_Router :: Router where
  "example_Router = \<lparr>workDir = ''/gt'', tmux = example_Tmux True True None None\<rparr>"

definition example_Message :: "nat Message" where
  "example_Message =
     \<lparr>From = ''gastown/toast'', To = ''mayor/'', Subject = ''done'', Body = [],
      Priority = 2, ThreadID = [], ReplyTo = [], MsgType = ''notification''\<rparr>"


section \<open>Notions used to state the properties\<close>

text \<open>
  The successfully parsed records of a list of lines, in order: the lines that are not
  blank and that \<open>parseLine\<close> accepts.
\<close>

definition parsed_records :: "'f reader_world \<Rightarrow> string list \<Rightarrow> 'f NarratorEvent list" where
  "parsed_records W tokens =
     concat (map (\<lambda>line. case parseLine W line of Inl err \<Rightarrow> [] | Inr ne \<Rightarrow> [ne])
                 (filter (\<lambda>line. TrimSpace W line \<noteq> []) tokens))"



text \<open>The calls that one call of \<open>Start\<close> makes: those it adds to the host's list.\<close>

definition calls_made :: "start_world \<Rightarrow> Manager \<Rightarrow> string \<Rightarrow> host \<Rightarrow> call list" where
  "calls_made W m ov h = drop (length (calls h)) (calls (snd (Start W m ov h)))"


section \<open>Mail router: properties\<close>

text \<open>
  Claim C5. The addresses \<open>"mayor"\<close> and \<open>"mayor/"\<close> resolve to the same session
  identifier, and \<open>"gastown/toast"\<close> resolves to \<open>"gt-gastown-toast"\<close>.
\<close>

theorem addressToSessionID_examples:
  "addressToSessionID ''mayor'' = addressToSessionID ''mayor/'' \<and>
   addressToSessionID ''gastown/toast'' = ''gt-gastown-toast''"
  by (simp add: addressToSessionID_def HasPrefix_def SplitN2_def)

theorem addressToSessionID_examples_witness:
  "addressToSessionID ''mayor'' = ''gt-mayor'' \<and>
   addressToSessionID ''mayor/'' = ''gt-mayor'' \<and>
   addressToSessionID ''gastown/toast'' = ''gt-gastown-toast''"
proof -
  have "addressToSessionID ''mayor'' = ''gt-mayor''"
    by (simp add: addressToSessionID_def HasPrefix_def)
  with addressToSessionID_examples show ?thesis
    by simp
qed

text \<open>
  Claim C4. \<open>Send\<close> returns an error exactly when the \<open>bd create\<close> command that
  persists the message fails. When the command succeeds, \<open>Send\<close> returns nil whatever
  \<open>notifyRecipient\<close> does, also when \<open>notifyRecipient\<close> itself returns an error.
\<close>

theorem Send_fails_iff_persist_fails:
  "((\<exists>err. Send K W r msg = Some err) = (\<exists>err. run_err (Send_run K W r msg) = Some err)) \<and>
   (run_err (Send_run K W r msg) = None \<and> notifyRecipient r msg \<noteq> None \<longrightarrow>
      Send K W r msg = None)"
  by (cases "run_err (Send_run K W r msg)") (simp_all add: Send_def Let_def)

theorem Send_fails_iff_persist_fails_witness:
  "run_err (Send_run example_mail_decls (example_mail_world None) example_Router example_Message)
     = None \<and>
   notifyRecipient example_Router example_Message = Some ''no server running'' \<and>
   Send example_mail_decls (example_mail_world None) example_Router example_Message = None \<and>
   Send example_mail_decls (example_mail_world (Some ''exit status 1'')) example_Router
     example_Message = Some ''sending message: exit status 1''"
proof -
  have persisted:
    "run_err (Send_run example_mail_decls (example_mail_world None) example_Router
       example_Message) = None"
    by (simp add: Send_run_def example_mail_world_def)
  have banner: "notifyRecipient example_Router example_Message = Some ''no server running''"
    by code_simp
  have failed:
    "Send example_mail_decls (example_mail_world (Some ''exit status 1'')) example_Router
       example_Message = Some ''sending message: exit status 1''"
    by code_simp
  from Send_fails_iff_persist_fails
         [of example_mail_decls "example_mail_world None" example_Router example_Message]
       persisted banner
  have "Send example_mail_decls (example_mail_world None) example_Router example_Message = None"
    by simp
  with persisted banner failed show ?thesis by simp
qed


section \<open>Classification: properties\<close>

lemma switch_on_default:
  "tag \<notin> fst ` set cases \<Longrightarrow> switch_on tag cases dflt = dflt"
  by (induction cases) auto

text \<open>
  Claim C6. An event whose visibility is \<open>audit\<close> is classified \<open>None\<close>, whatever its
  type; an event that is not audit-only and whose type is \<open>sling\<close> (work assigned) is
  classified \<open>High\<close>.
\<close>

theorem classify_audit_and_sling:
  "(Visibility e = VisibilityAudit K \<longrightarrow> classifySignificance K e = SignificanceNone) \<and>
   (Visibility e \<noteq> VisibilityAudit K \<and> Type e = TypeSling K \<longrightarrow>
      classifySignificance K e = SignificanceHigh)"
  by (simp add: classifySignificance_def classify_cases_def)

theorem classify_audit_and_sling_witness:
  "classifySignificance example_consts
     (\<lparr>Timestamp = [], Type = ''sling'', Actor = ''mayor'', Payload = None,
       Visibility = ''audit''\<rparr> :: unit Event) = 0 \<and>
   classifySignificance example_consts
     (\<lparr>Timestamp = [], Type = ''sling'', Actor = ''mayor'', Payload = None,
       Visibility = ''feed''\<rparr> :: unit Event) = 3"
  using classify_audit_and_sling
          [of "\<lparr>Timestamp = [], Type = ''sling'', Actor = ''mayor'', Payload = None,
                Visibility = ''audit''\<rparr> :: unit Event" example_consts]
        classify_audit_and_sling
          [of "\<lparr>Timestamp = [], Type = ''sling'', Actor = ''mayor'', Payload = None,
                Visibility = ''feed''\<rparr> :: unit Event" example_consts]
  by (simp add: example_consts_def SignificanceNone_def SignificanceHigh_def)

text \<open>
  Claim C7. An event that is not audit-only and whose type is none of the cases of the
  classifier's switch is classified \<open>Low\<close>; the line it was decoded from yields a record
  with that significance, which the reading loop appends to its result.
\<close>

theorem classify_unrecognised_Low:
  assumes "Visibility e \<noteq> VisibilityAudit K"
      and "Type e \<notin> fst ` set (classify_cases K)"
  shows "classifySignificance K e = SignificanceLow \<and>
         (events W = K \<and> Unmarshal W line = Inr e \<and> TrimSpace W line \<noteq> [] \<longrightarrow>
            (\<exists>ne. scan_loop W [line] acc = acc @ [ne] \<and> Type ne = Type e \<and>
                  Significance ne = SignificanceLow))"
  using assms
  by (auto simp add: classifySignificance_def switch_on_default parseLine_def)

theorem classify_unrecognised_Low_witness:
  "classifySignificance example_consts
     (\<lparr>Timestamp = [], Type = ''coffee_break'', Actor = ''gastown/toast'', Payload = None,
       Visibility = ''feed''\<rparr> :: unit Event) = 1 \<and>
   map Significance
     (scan_loop (example_reader_world ErrNotExist) [''coffee_break gastown/toast feed''] [])
     = [1]"
proof -
  let ?e = "\<lparr>Timestamp = [], Type = ''coffee_break'', Actor = ''gastown/toast'',
             Payload = None, Visibility = ''feed''\<rparr> :: unit Event"
  let ?W = "example_reader_world ErrNotExist"
  let ?line = "''coffee_break gastown/toast feed''"
  have vis: "Visibility ?e \<noteq> VisibilityAudit example_consts"
    by (simp add: example_consts_def)
  have ty: "Type ?e \<notin> fst ` set (classify_cases example_consts)"
    by (simp add: classify_cases_def example_consts_def)
  have ev: "events ?W = example_consts"
    by (simp add: example_reader_world_def)
  have dec: "Unmarshal ?W ?line = Inr ?e"
    by (simp add: example_reader_world_def example_Unmarshal_def)
  have blank: "TrimSpace ?W ?line \<noteq> []"
    by (simp add: example_reader_world_def example_TrimSpace_def)
  from classify_unrecognised_Low [OF vis ty, of ?W ?line "[]"] ev dec blank
  show ?thesis
    by (auto simp add: SignificanceLow_def)
qed


section \<open>The event reader: properties\<close>



text \<open>A line that \<open>parseLine\<close> rejects adds nothing to the records of the lines around it.\<close>

lemma parsed_records_malformed:
  "parseLine W bad = Inl err \<Longrightarrow>
     parsed_records W (before @ bad # after) = parsed_records W (before @ after)"
  by (simp add: parsed_records_def)

text \<open>\<open>ReadNew\<close> never moves the offset backwards.\<close>

lemma ReadNew_offset_monotone: "offset r \<le> offset (snd (ReadNew W r))"
  by (simp add: ReadNew_def readFromOffset_def Let_def
      split: open_result.splits option.splits prod.splits)



















text \<open>
  Claim C10. When the events file does not exist, \<open>ReadNew\<close> and \<open>ReadAll\<close> both return
  no events and no error, and leave the reader, so its offset, as it was.
\<close>

theorem read_missing_log:
  assumes "os_Open W (eventsPath r) = ErrNotExist"
  shows "ReadNew W r = (([], None), r) \<and> ReadAll W r = (([], None), r)"
  using assms by (simp add: ReadNew_def ReadAll_def readFromOffset_def)

theorem read_missing_log_witness:
  "ReadNew (example_reader_world ErrNotExist) (example_reader 7) = (([], None), example_reader 7) \<and>
   ReadAll (example_reader_world ErrNotExist) (example_reader 7) = (([], None), example_reader 7) \<and>
   offset (example_reader 7) = 7"
proof -
  have "os_Open (example_reader_world ErrNotExist) (eventsPath (example_reader 7)) = ErrNotExist"
    by (simp add: example_reader_world_def)
  from read_missing_log [OF this] show ?thesis
    by (simp add: example_reader_def)
qed

text \<open>
  After a read from the start that the scanner finishes, the offset is the length of the
  file, whatever it was before.
\<close>

lemma ReadAll_offset:
  assumes "os_Open W (eventsPath r) = Opened content"
      and "snd (ScanLines content) = None"
      and "seek_current_err W = None"
  shows "offset (snd (ReadAll W r)) = int (length content)"
  using assms
  by (simp add: ReadAll_def readFromOffset_def Let_def case_prod_beta)

text \<open>
  Claim C1. \<open>ReadAll\<close> is documented not to update the offset, but it runs
  \<open>readFromOffset\<close>, which stores the end position of the read: a reader at offset 4
  that replays a log of 63 bytes is left at offset 63. (\<open>ReadNew\<close> does leave the offset
  at or after its prior value: \<open>ReadNew_offset_monotone\<close>.)
\<close>

theorem ReadAll_moves_offset:
  "offset (example_reader 4) = 4 \<and>
   length example_log = 63 \<and>
   offset (snd (ReadAll (example_reader_world (Opened example_log)) (example_reader 4))) = 63"
proof -
  let ?W = "example_reader_world (Opened example_log)"
  have opened: "os_Open ?W (eventsPath (example_reader 4)) = Opened example_log"
    by (simp add: example_reader_world_def)
  have scanned: "snd (ScanLines example_log) = None"
    by (simp add: example_log_def ScanLines.simps MaxScanTokenSize_def)
  have seek: "seek_current_err ?W = None"
    by (simp add: example_reader_world_def)
  have "offset (snd (ReadAll ?W (example_reader 4))) = int (length example_log)"
    using opened scanned seek by (rule ReadAll_offset)
  then show ?thesis
    by (simp add: example_log_def example_reader_def)
qed


section \<open>Filters: properties\<close>

lemma fold_FilterByRig_body:
  "fold (FilterByRig_body rig) xs s = s\<lparr>result := result s @ filter (\<lambda>e. Rig e = rig) xs\<rparr>"
  by (induction xs arbitrary: s) (simp_all add: FilterByRig_body_def)

lemma fold_FilterBySignificance_body:
  "fold (FilterBySignificance_body minSig) xs s =
     s\<lparr>result := result s @ filter (\<lambda>e. minSig \<le> Significance e) xs\<rparr>"
  by (induction xs arbitrary: s) (simp_all add: FilterBySignificance_body_def)

lemma FilterByRig_filter: "FilterByRig es rig = filter (\<lambda>e. Rig e = rig) es"
  by (simp add: FilterByRig_def FilterByRig_run_def fold_FilterByRig_body)

lemma FilterBySignificance_filter:
  "FilterBySignificance es minSig = filter (\<lambda>e. minSig \<le> Significance e) es"
  by (simp add: FilterBySignificance_def FilterBySignificance_run_def
      fold_FilterBySignificance_body)

text \<open>
  Claim C9. Filtering by rig and filtering by minimum significance commute, for every
  list of events, rig and minimum; and a run of either filter leaves the slice it was
  given as it was.
\<close>

theorem filters_commute:
  "FilterByRig (FilterBySignificance es s) r = FilterBySignificance (FilterByRig es r) s \<and>
   evts (FilterByRig_run r v) = evts v \<and>
   evts (FilterBySignificance_run s v) = evts v"
proof (intro conjI)
  show "FilterByRig (FilterBySignificance es s) r = FilterBySignificance (FilterByRig es r) s"
    unfolding FilterByRig_filter FilterBySignificance_filter
    by (induction es) simp_all
  show "evts (FilterByRig_run r v) = evts v"
    by (simp add: FilterByRig_run_def fold_FilterByRig_body)
  show "evts (FilterBySignificance_run s v) = evts v"
    by (simp add: FilterBySignificance_run_def fold_FilterBySignificance_body)
qed



section \<open>Session manager: properties\<close>

lemma calls_did: "calls (did c h) = calls h @ [c]"
  by (simp add: did_def)

lemma stored_did: "stored (did c h) = stored h"
  by (simp add: did_def)

lemma calls_fold_did: "calls (fold did cs h) = calls h @ cs"
  by (induction cs arbitrary: h) (simp_all add: calls_did)

lemma calls_fold_SetEnvironment:
  "calls (fold (\<lambda>(k, v). did (Call_SetEnvironment sid k v)) kvs h) =
     calls h @ map (\<lambda>(k, v). Call_SetEnvironment sid k v) kvs"
  by (induction kvs arbitrary: h) (auto simp add: calls_did)

lemma Start_record_calls:
  "\<exists>rest. calls (snd (Start_record W sid dir h)) = calls h @ rest"
  by (auto simp add: Start_record_def saveState_def Let_def calls_did calls_fold_did
      split: option.splits prod.splits)

lemma Start_after_create_calls:
  "\<exists>rest. calls (snd (Start_record W sid dir
            (did (Call_ConfigureGasTownSession sid)
               (fold (\<lambda>(k, v). did (Call_SetEnvironment sid k v)) kvs h)))) = calls h @ rest"
proof -
  let ?h5 = "did (Call_ConfigureGasTownSession sid)
               (fold (\<lambda>(k, v). did (Call_SetEnvironment sid k v)) kvs h)"
  obtain rest where "calls (snd (Start_record W sid dir ?h5)) = calls ?h5 @ rest"
    using Start_record_calls by blast
  then show ?thesis
    by (simp add: calls_did calls_fold_SetEnvironment)
qed

lemma Start_create_calls:
  "\<exists>rest. calls (snd (Start_create W m ov sid h)) = calls h @ rest"
proof -
  let ?dir = "narratorDir W m"
  show ?thesis
  proof (cases "MkdirAll W ?dir")
    case (Some err)
    then show ?thesis by (simp add: Start_create_def Let_def calls_did)
  next
    case mk: None
    show ?thesis
    proof (cases "EnsureSettingsForRole W ?dir ''narrator''")
      case (Some err)
      with mk show ?thesis by (simp add: Start_create_def Let_def calls_did)
    next
      case es: None
      show ?thesis
      proof (cases "BuildAgentStartupCommandWithAgentOverride W (townRoot m) ov")
        case (Inl err)
        with mk es show ?thesis by (simp add: Start_create_def Let_def calls_did)
      next
        case (Inr cmd)
        show ?thesis
        proof (cases "NewSessionWithCommand (NewTmux W) sid ?dir cmd")
          case (Some err)
          with mk es Inr show ?thesis by (simp add: Start_create_def Let_def calls_did)
        next
          case None
          obtain rest where "calls (snd (Start_record W sid ?dir
            (did (Call_ConfigureGasTownSession sid)
               (fold (\<lambda>(k, v). did (Call_SetEnvironment sid k v)) (AgentEnv W (townRoot m))
                  (did (Call_NewSessionWithCommand sid ?dir cmd)
                     (did (Call_EnsureSettingsForRole ?dir ''narrator'')
                        (did (Call_MkdirAll ?dir) h))))))) =
             calls (did (Call_NewSessionWithCommand sid ?dir cmd)
                     (did (Call_EnsureSettingsForRole ?dir ''narrator'')
                        (did (Call_MkdirAll ?dir) h))) @ rest"
            using Start_after_create_calls by blast
          with mk es Inr None show ?thesis
            by (simp add: Start_create_def Let_def calls_did)
        qed
      qed
    qed
  qed
qed

lemma Start_create_recreates:
  assumes "MkdirAll W (narratorDir W m) = None"
      and "EnsureSettingsForRole W (narratorDir W m) ''narrator'' = None"
      and "BuildAgentStartupCommandWithAgentOverride W (townRoot m) ov = Inr cmd"
  shows "Call_NewSessionWithCommand sid (narratorDir W m) cmd
           \<in> set (drop (length (calls h)) (calls (snd (Start_create W m ov sid h))))"
proof -
  let ?dir = "narratorDir W m"
  show ?thesis
  proof (cases "NewSessionWithCommand (NewTmux W) sid ?dir cmd")
    case (Some err)
    with assms show ?thesis by (simp add: Start_create_def Let_def calls_did)
  next
    case None
    obtain rest where "calls (snd (Start_record W sid ?dir
            (did (Call_ConfigureGasTownSession sid)
               (fold (\<lambda>(k, v). did (Call_SetEnvironment sid k v)) (AgentEnv W (townRoot m))
                  (did (Call_NewSessionWithCommand sid ?dir cmd)
                     (did (Call_EnsureSettingsForRole ?dir ''narrator'')
                        (did (Call_MkdirAll ?dir) h))))))) =
             calls (did (Call_NewSessionWithCommand sid ?dir cmd)
                     (did (Call_EnsureSettingsForRole ?dir ''narrator'')
                        (did (Call_MkdirAll ?dir) h))) @ rest"
      using Start_after_create_calls by blast
    with assms None show ?thesis
      by (simp add: Start_create_def Let_def calls_did)
  qed
qed

text \<open>
  When \<open>Start\<close> fails in the wait for the worker, the state file holds a record in state
  \<open>Running\<close>, started at the time of the call.
\<close>

lemma Start_record_wait_failure:
  "fst (Start_record W sid dir h) = Returned (WaitingForNarratorToStart err) \<Longrightarrow>
     \<exists>n. stored (snd (Start_record W sid dir h)) = Record n \<and> State n = StateRunning
          \<and> StartedAt n = Some (Now W)"
  by (auto simp add: Start_record_def saveState_def Let_def stored_did
      split: option.splits prod.splits)

lemma Start_create_wait_failure:
  "fst (Start_create W m ov sid h) = Returned (WaitingForNarratorToStart err) \<Longrightarrow>
     \<exists>n. stored (snd (Start_create W m ov sid h)) = Record n \<and> State n = StateRunning
          \<and> StartedAt n = Some (Now W)"
  by (auto simp add: Start_create_def Let_def split: option.splits sum.splits
      dest: Start_record_wait_failure)

lemma Start_wait_failure:
  "fst (Start W m ov h) = Returned (WaitingForNarratorToStart err) \<Longrightarrow>
     \<exists>n. stored (snd (Start W m ov h)) = Record n \<and> State n = StateRunning
          \<and> StartedAt n = Some (Now W)"
  by (auto simp add: Start_def Let_def split: option.splits prod.splits if_splits
      dest: Start_create_wait_failure)

text \<open>
  Claim C2. A \<open>Start\<close> that fails because the worker never becomes ready returns an error,
  but it has saved the state \<open>Running\<close> before it waits and does not save again: from a
  stored record in state \<open>Stopped\<close>, with no session and a wait that times out, the call
  returns the wait error and leaves the stored record \<open>Running\<close>.
\<close>

theorem Start_wait_timeout_leaves_Running:
  "fst (Start (example_start_world (example_Tmux False False None (Some ''timeout'')))
          (NewManager ''/gt'') [] example_host)
     = Returned (WaitingForNarratorToStart ''timeout'') \<and>
   stored example_host = Record default_Narrator \<and>
   State default_Narrator = StateStopped \<and>
   stored (snd (Start (example_start_world (example_Tmux False False None (Some ''timeout'')))
                  (NewManager ''/gt'') [] example_host))
     = Record (default_Narrator\<lparr>State := StateRunning, StartedAt := Some 1000\<rparr>)"
  by code_simp

text \<open>
  Claim C3. Let the session exist. If its inner process is alive, \<open>Start\<close> returns
  \<open>ErrAlreadyRunning\<close> and leaves the host as it was but for the two probes it made,
  \<open>HasSession\<close> and \<open>IsClaudeRunning\<close>. If the inner process is dead (a zombie), the
  first call \<open>Start\<close> makes after the two probes is \<open>KillSession\<close>; when the kill fails
  \<open>Start\<close> stops there with that error and the stored state untouched; when the kill and
  the preparation of the directory, the settings and the command succeed, the call
  \<open>NewSessionWithCommand\<close> that creates the fresh session is among the calls after the
  kill.
\<close>

theorem Start_running_or_zombie:
  assumes "fst (HasSession (NewTmux W) (SessionName W))"
  shows "(IsClaudeRunning (NewTmux W) (SessionName W) \<longrightarrow>
            Start W m ov h =
              (Returned ErrAlreadyRunning,
               h\<lparr>calls := calls h @ [Call_HasSession (SessionName W),
                                      Call_IsClaudeRunning (SessionName W)]\<rparr>))
       \<and> (\<not> IsClaudeRunning (NewTmux W) (SessionName W) \<longrightarrow>
            (\<exists>rest. calls_made W m ov h =
                      [Call_HasSession (SessionName W), Call_IsClaudeRunning (SessionName W),
                       Call_KillSession (SessionName W)] @ rest
                 \<and> (\<forall>err. KillSession (NewTmux W) (SessionName W) = Some err \<longrightarrow>
                        rest = [] \<and> fst (Start W m ov h) = Returned (KillingZombieSession err)
                        \<and> stored (snd (Start W m ov h)) = stored h)
                 \<and> (\<forall>cmd. KillSession (NewTmux W) (SessionName W) = None
                        \<and> MkdirAll W (narratorDir W m) = None
                        \<and> EnsureSettingsForRole W (narratorDir W m) ''narrator'' = None
                        \<and> BuildAgentStartupCommandWithAgentOverride W (townRoot m) ov = Inr cmd \<longrightarrow>
                        Call_NewSessionWithCommand (SessionName W) (narratorDir W m) cmd \<in> set rest)))"
proof (intro conjI impI)
  assume "IsClaudeRunning (NewTmux W) (SessionName W)"
  with assms show "Start W m ov h =
              (Returned ErrAlreadyRunning,
               h\<lparr>calls := calls h @ [Call_HasSession (SessionName W),
                                      Call_IsClaudeRunning (SessionName W)]\<rparr>)"
    by (simp add: Start_def Let_def did_def case_prod_beta)
next
  let ?sid = "SessionName W"
  let ?h3 = "did (Call_KillSession ?sid) (did (Call_IsClaudeRunning ?sid) (did (Call_HasSession ?sid) h))"
  assume dead: "\<not> IsClaudeRunning (NewTmux W) (SessionName W)"
  show "\<exists>rest. calls_made W m ov h =
                      [Call_HasSession (SessionName W), Call_IsClaudeRunning (SessionName W),
                       Call_KillSession (SessionName W)] @ rest
                 \<and> (\<forall>err. KillSession (NewTmux W) (SessionName W) = Some err \<longrightarrow>
                        rest = [] \<and> fst (Start W m ov h) = Returned (KillingZombieSession err)
                        \<and> stored (snd (Start W m ov h)) = stored h)
                 \<and> (\<forall>cmd. KillSession (NewTmux W) (SessionName W) = None
                        \<and> MkdirAll W (narratorDir W m) = None
                        \<and> EnsureSettingsForRole W (narratorDir W m) ''narrator'' = None
                        \<and> BuildAgentStartupCommandWithAgentOverride W (townRoot m) ov = Inr cmd \<longrightarrow>
                        Call_NewSessionWithCommand (SessionName W) (narratorDir W m) cmd \<in> set rest)"
  proof (cases "KillSession (NewTmux W) ?sid")
    case (Some err)
    with assms dead have "Start W m ov h = (Returned (KillingZombieSession err), ?h3)"
      by (simp add: Start_def Let_def case_prod_beta)
    with Some show ?thesis
      by (simp add: calls_made_def calls_did stored_did)
  next
    case None
    with assms dead have st: "Start W m ov h = Start_create W m ov ?sid ?h3"
      by (simp add: Start_def Let_def case_prod_beta)
    obtain rest where rest: "calls (snd (Start_create W m ov ?sid ?h3)) = calls ?h3 @ rest"
      using Start_create_calls by blast
    have made: "calls_made W m ov h =
        [Call_HasSession ?sid, Call_IsClaudeRunning ?sid, Call_KillSession ?sid] @ rest"
      by (simp add: calls_made_def st rest calls_did)
    have "Call_NewSessionWithCommand ?sid (narratorDir W m) cmd \<in> set rest"
      if "MkdirAll W (narratorDir W m) = None"
        and "EnsureSettingsForRole W (narratorDir W m) ''narrator'' = None"
        and "BuildAgentStartupCommandWithAgentOverride W (townRoot m) ov = Inr cmd" for cmd
      using Start_create_recreates [OF that, of ?sid ?h3] rest by simp
    with made None show ?thesis by simp
  qed
qed

theorem Start_running_or_zombie_witness:
  "Start (example_start_world (example_Tmux True True None None)) (NewManager ''/gt'') []
     example_host =
     (Returned ErrAlreadyRunning,
      example_host\<lparr>calls := [Call_HasSession ''hq-narrator'',
                               Call_IsClaudeRunning ''hq-narrator'']\<rparr>) \<and>
   take 3 (calls_made (example_start_world (example_Tmux True False None None))
             (NewManager ''/gt'') [] example_host) =
     [Call_HasSession ''hq-narrator'', Call_IsClaudeRunning ''hq-narrator'',
      Call_KillSession ''hq-narrator''] \<and>
   Call_NewSessionWithCommand ''hq-narrator'' ''/gt/narrator'' ''claude''
     \<in> set (drop 3 (calls_made (example_start_world (example_Tmux True False None None))
                       (NewManager ''/gt'') [] example_host))"
proof -
  let ?W1 = "example_start_world (example_Tmux True True None None)"
  let ?W2 = "example_start_world (example_Tmux True False None None)"
  let ?m = "NewManager ''/gt''"
  have sid: "SessionName ?W1 = ''hq-narrator''" "SessionName ?W2 = ''hq-narrator''"
    by (simp_all add: SessionName_def example_start_world_def)
  have dir: "narratorDir ?W2 ?m = ''/gt/narrator''"
    by (simp add: narratorDir_def NewManager_def example_start_world_def)
  have has1: "fst (HasSession (NewTmux ?W1) (SessionName ?W1))"
    by (simp add: example_start_world_def example_Tmux_def)
  have alive1: "IsClaudeRunning (NewTmux ?W1) (SessionName ?W1)"
    by (simp add: example_start_world_def example_Tmux_def)
  have has2: "fst (HasSession (NewTmux ?W2) (SessionName ?W2))"
    by (simp add: example_start_world_def example_Tmux_def)
  have dead2: "\<not> IsClaudeRunning (NewTmux ?W2) (SessionName ?W2)"
    by (simp add: example_start_world_def example_Tmux_def)
  have ok2: "KillSession (NewTmux ?W2) (SessionName ?W2) = None"
    "MkdirAll ?W2 (narratorDir ?W2 ?m) = None"
    "EnsureSettingsForRole ?W2 (narratorDir ?W2 ?m) ''narrator'' = None"
    "BuildAgentStartupCommandWithAgentOverride ?W2 (townRoot ?m) [] = Inr ''claude''"
    by (simp_all add: example_start_world_def example_Tmux_def)
  from Start_running_or_zombie [OF has1, of ?m "[]" example_host] alive1
  have healthy: "Start ?W1 ?m [] example_host =
     (Returned ErrAlreadyRunning,
      example_host\<lparr>calls := [Call_HasSession ''hq-narrator'',
                               Call_IsClaudeRunning ''hq-narrator'']\<rparr>)"
    by (simp add: sid example_host_def)
  from Start_running_or_zombie [OF has2, of ?m "[]" example_host] dead2
  obtain rest where
    made: "calls_made ?W2 ?m [] example_host =
             [Call_HasSession (SessionName ?W2), Call_IsClaudeRunning (SessionName ?W2),
              Call_KillSession (SessionName ?W2)] @ rest"
    and fresh: "\<forall>cmd. KillSession (NewTmux ?W2) (SessionName ?W2) = None
                        \<and> MkdirAll ?W2 (narratorDir ?W2 ?m) = None
                        \<and> EnsureSettingsForRole ?W2 (narratorDir ?W2 ?m) ''narrator'' = None
                        \<and> BuildAgentStartupCommandWithAgentOverride ?W2 (townRoot ?m) [] = Inr cmd \<longrightarrow>
                        Call_NewSessionWithCommand (SessionName ?W2) (narratorDir ?W2 ?m) cmd \<in> set rest"
    by blast
  from fresh ok2 have "Call_NewSessionWithCommand (SessionName ?W2) (narratorDir ?W2 ?m) ''claude'' \<in> set rest"
    by blast
  with made healthy show ?thesis
    by (simp add: sid dir)
qed

end
